theory Spec2Isabelle
  imports Complex_Main "HOL-Library.Char_ord" "HOL-Library.List_Lexorder"
begin

section \<open>Python strings\<close>

text \<open>
  A Python \<open>str\<close> is modelled as a \<open>string\<close>: a list of characters, each a code point
  below 256 (the Latin-1 range, which holds the accented letters of the fixed sheet names).
  The character classes below are the ones Python's \<open>str\<close> methods and its \<open>re\<close> module
  use on that range.
\<close>

definition py_isspace :: "char \<Rightarrow> bool" where
  "py_isspace c =
     (let n = (of_char c :: nat)
      in (9 \<le> n \<and> n \<le> 13) \<or> (28 \<le> n \<and> n \<le> 32) \<or> n = 133 \<or> n = 160)"

definition py_isdecimal :: "char \<Rightarrow> bool" where
  "py_isdecimal c = (let n = (of_char c :: nat) in 48 \<le> n \<and> n \<le> 57)"

definition py_isalpha :: "char \<Rightarrow> bool" where
  "py_isalpha c =
     (let n = (of_char c :: nat)
      in (65 \<le> n \<and> n \<le> 90) \<or> (97 \<le> n \<and> n \<le> 122) \<or> n = 170 \<or> n = 181 \<or> n = 186
         \<or> (192 \<le> n \<and> n \<le> 214) \<or> (216 \<le> n \<and> n \<le> 246) \<or> 248 \<le> n)"

definition py_isnumeric :: "char \<Rightarrow> bool" where
  "py_isnumeric c =
     (let n = (of_char c :: nat)
      in (48 \<le> n \<and> n \<le> 57) \<or> n = 178 \<or> n = 179 \<or> n = 185 \<or> (188 \<le> n \<and> n \<le> 190))"

text \<open>The class \<open>\w\<close> of \<open>re\<close>: alphanumeric or the underscore.\<close>

definition py_isword :: "char \<Rightarrow> bool" where
  "py_isword c = (py_isalpha c \<or> py_isnumeric c \<or> c = CHR ''_'')"

definition py_lower_char :: "char \<Rightarrow> char" where
  "py_lower_char c =
     (let n = (of_char c :: nat)
      in if (65 \<le> n \<and> n \<le> 90) \<or> (192 \<le> n \<and> n \<le> 222 \<and> n \<noteq> 215)
         then char_of (n + 32) else c)"

definition py_lower :: "string \<Rightarrow> string" where
  "py_lower s = map py_lower_char s"

definition py_strip :: "string \<Rightarrow> string" where
  "py_strip s = rev (dropWhile py_isspace (rev (dropWhile py_isspace s)))"

text \<open>\<open>x or ""\<close> for a value that is a string or \<open>None\<close>.\<close>

definition or_empty :: "string option \<Rightarrow> string" where
  "or_empty x = (case x of None \<Rightarrow> [] | Some s \<Rightarrow> s)"

subsection \<open>Decimal numerals and format specifications\<close>

fun dec :: "nat \<Rightarrow> string" where
  "dec n = (if n < 10 then [char_of (48 + n)] else dec (n div 10) @ [char_of (48 + n mod 10)])"

declare dec.simps [simp del]

definition zfill :: "nat \<Rightarrow> string \<Rightarrow> string" where
  "zfill w s = replicate (w - length s) (CHR ''0'') @ s"

text \<open>The format specification \<open>0wd\<close> (as in \<open>f"{n:02d}"\<close>): the sign first, then zeros
  up to the width.\<close>

definition fmt_0wd :: "nat \<Rightarrow> int \<Rightarrow> string" where
  "fmt_0wd w n =
     (if n < 0 then CHR ''-'' # zfill (w - 1) (dec (nat (- n))) else zfill w (dec (nat n)))"

definition dec_value :: "string \<Rightarrow> nat" where
  "dec_value s = foldl (\<lambda>a c. 10 * a + (of_char c - 48)) 0 s"

text \<open>
  Python floats are modelled as rationals: exact arithmetic, no infinities.
  \<open>py_float\<close> is \<open>float(s)\<close> on the strings the parsers below pass to it, which consist of
  digits and dots only: digits with at most one dot and at least one digit, otherwise
  \<open>ValueError\<close> (\<open>None\<close>).
\<close>

definition py_float :: "string \<Rightarrow> rat option" where
  "py_float s =
     (let ip = takeWhile py_isdecimal s; r = dropWhile py_isdecimal s
      in case r of
           [] \<Rightarrow> (if ip = [] then None else Some (of_nat (dec_value ip)))
         | c # fp \<Rightarrow>
             (if c = CHR ''.'' \<and> list_all py_isdecimal fp \<and> (ip \<noteq> [] \<or> fp \<noteq> [])
              then Some (of_nat (dec_value (ip @ fp)) / 10 ^ length fp)
              else None))"

text \<open>\<open>round(x)\<close> of Python 3: to the nearest integer, a tie to the even one.\<close>

definition py_round :: "rat \<Rightarrow> int" where
  "py_round x =
     (let f = \<lfloor>x\<rfloor>; d = x - of_int f
      in if d < 1 / 2 then f else if 1 / 2 < d then f + 1 else if even f then f else f + 1)"

section \<open>analyzer.py: parsers\<close>

text \<open>
  The three regular expressions of the parsers have the shape \<open>(C+)\s*TAIL\<close> for a
  character class \<open>C\<close> that is disjoint from white space and from the first letter of the
  tail, so the greedy run of \<open>C\<close> never gives a character back; \<open>re.search\<close> returns the
  leftmost start at which the tail matches, and group 1 is the run from there.
\<close>

fun re_search_run :: "(char \<Rightarrow> bool) \<Rightarrow> (string \<Rightarrow> bool) \<Rightarrow> string \<Rightarrow> string option" where
  "re_search_run cls tail [] = None"
| "re_search_run cls tail (c # cs) =
     (if cls c \<and> tail (dropWhile cls cs) then Some (c # takeWhile cls cs)
      else re_search_run cls tail cs)"

text \<open>A literal of lower-case ASCII letters matched with \<open>re.I\<close> at the start of a text.\<close>

definition ci_prefix :: "string \<Rightarrow> string \<Rightarrow> bool" where
  "ci_prefix lit s = (length lit \<le> length s \<and> py_lower (take (length lit) s) = lit)"

text \<open>\<open>\b\<close> after a word character: the text ends or goes on with a non-word character.\<close>

definition word_end :: "string \<Rightarrow> bool" where
  "word_end s = (case s of [] \<Rightarrow> True | c # _ \<Rightarrow> \<not> py_isword c)"

text \<open>\<open>\s*min(?:utos)?\b\<close>\<close>

definition minutos_tail :: "string \<Rightarrow> bool" where
  "minutos_tail s =
     (let t = dropWhile py_isspace s; u = drop 3 t
      in ci_prefix ''min'' t \<and> ((ci_prefix ''utos'' u \<and> word_end (drop 4 u)) \<or> word_end u))"

text \<open>\<open>\s*km/?h\<close>\<close>

definition kmh_tail :: "string \<Rightarrow> bool" where
  "kmh_tail s =
     (let t = dropWhile py_isspace s; u = drop 2 t
      in ci_prefix ''km'' t \<and>
         ci_prefix ''h'' (case u of [] \<Rightarrow> [] | c # r \<Rightarrow> if c = CHR ''/'' then r else u))"

text \<open>\<open>\s*km\b\<close>\<close>

definition km_tail :: "string \<Rightarrow> bool" where
  "km_tail s = (let t = dropWhile py_isspace s in ci_prefix ''km'' t \<and> word_end (drop 2 t))"

text \<open>The class \<open>[\d.,]\<close>.\<close>

definition num_char :: "char \<Rightarrow> bool" where
  "num_char c = (py_isdecimal c \<or> c = CHR ''.'' \<or> c = CHR '','')"

definition comma_to_dot :: "string \<Rightarrow> string" where
  "comma_to_dot s = map (\<lambda>c. if c = CHR '','' then CHR ''.'' else c) s"

definition parse_minutos :: "string \<Rightarrow> int option" where
  "parse_minutos texto =
     (if texto = [] then None
      else case re_search_run py_isdecimal minutos_tail texto of
             None \<Rightarrow> None
           | Some g \<Rightarrow> Some (int (dec_value g)))"

definition parse_vel_kmh :: "string \<Rightarrow> rat option" where
  "parse_vel_kmh texto =
     (if texto = [] then None
      else case re_search_run num_char kmh_tail texto of
             None \<Rightarrow> None
           | Some g \<Rightarrow> py_float (comma_to_dot g))"

definition parse_stat_to_min_vel :: "string \<Rightarrow> int option \<times> rat option" where
  "parse_stat_to_min_vel texto =
     (if texto = [] then (None, None) else (parse_minutos texto, parse_vel_kmh texto))"

definition parse_dist_km :: "string \<Rightarrow> rat option" where
  "parse_dist_km texto =
     (if texto = [] then None
      else case re_search_run num_char km_tail texto of
             None \<Rightarrow> None
           | Some g \<Rightarrow> py_float (comma_to_dot g))"

definition tiempo_desde_dist_y_vel :: "rat option \<Rightarrow> rat option \<Rightarrow> int option \<times> string" where
  "tiempo_desde_dist_y_vel dist_km vel_kmh =
     (case dist_km of
        None \<Rightarrow> (None, [])
      | Some d \<Rightarrow>
          (case vel_kmh of
             None \<Rightarrow> (None, [])
           | Some v \<Rightarrow>
               if v \<le> 0 then (None, [])
               else
                 (let horas = d / v;
                      total_seg = py_round (horas * 3600);
                      mm = total_seg div 60;
                      ss = total_seg mod 60
                  in (Some total_seg, fmt_0wd 2 mm @ '':'' @ fmt_0wd 2 ss))))"

section \<open>analyzer.py: the loop of \<open>TrafficDetector.detect_all\<close>\<close>

text \<open>A raw record as the extraction script returns it; a text field may be missing.\<close>

record raw_tramo =
  r_name :: "string option"
  r_current :: "string option"
  r_historic :: "string option"
  r_dist :: "string option"
  r_jam :: "int option"
  r_section_flag :: "string option"

record tramo_norm =
  nombre :: string
  dist_km :: "rat option"
  tiempo_min :: "int option"
  tiempo_seg :: "int option"
  tiempo_mmss :: string
  vel_kmh :: "rat option"
  jam :: "int option"
  es_usual :: "bool option"
  current_raw :: string
  historic_raw :: string
  dist_raw :: string
  raw :: string

definition name_of :: "raw_tramo \<Rightarrow> string" where
  "name_of r = py_strip (or_empty (r_name r))"

definition dist_of :: "raw_tramo \<Rightarrow> string" where
  "dist_of r = py_strip (or_empty (r_dist r))"

definition curr_of :: "raw_tramo \<Rightarrow> string" where
  "curr_of r = py_strip (or_empty (r_current r))"

definition hist_of :: "raw_tramo \<Rightarrow> string" where
  "hist_of r = py_strip (or_empty (r_historic r))"

text \<open>The classification: from the section flag alone.\<close>

definition es_usual_of :: "raw_tramo \<Rightarrow> bool option" where
  "es_usual_of r =
     (let flag = py_lower (py_strip (or_empty (r_section_flag r)))
      in if flag = ''unusual'' then Some False
         else if flag = ''watch'' then Some True
         else None)"

definition clave_curr_of :: "raw_tramo \<Rightarrow> string" where
  "clave_curr_of r = (if curr_of r \<noteq> [] then curr_of r else hist_of r)"

definition clave_of :: "raw_tramo \<Rightarrow> string" where
  "clave_of r = name_of r @ ''||'' @ dist_of r @ ''||'' @ clave_curr_of r"

text \<open>The body of the loop after the duplicate check: parsing and the record built.\<close>

definition normalizar :: "raw_tramo \<Rightarrow> tramo_norm" where
  "normalizar r =
     (let name = name_of r; d_raw = dist_of r; curr = curr_of r; hist = hist_of r;
          (min_c, vel_c) = parse_stat_to_min_vel curr;
          (min_h, vel_h) = parse_stat_to_min_vel hist;
          minutos = (if min_c \<noteq> None then min_c else min_h);
          vel = (if vel_c \<noteq> None then vel_c else vel_h);
          d_km = parse_dist_km d_raw;
          (t_seg, t_mmss) =
            (case minutos of
               Some m \<Rightarrow> (Some (m * 60), fmt_0wd 2 m @ '':00'')
             | None \<Rightarrow> tiempo_desde_dist_y_vel d_km vel)
      in \<lparr> nombre = name, dist_km = d_km, tiempo_min = minutos, tiempo_seg = t_seg,
           tiempo_mmss = t_mmss, vel_kmh = vel, jam = r_jam r, es_usual = es_usual_of r,
           current_raw = curr, historic_raw = hist, dist_raw = d_raw,
           raw = name @ '' | '' @ py_strip (if curr \<noteq> [] then curr else hist) @ '' | '' @ d_raw
                 @ '' | tiempo='' @ (if t_mmss \<noteq> [] then t_mmss else ''--:--'') \<rparr>)"

text \<open>
  The loop over the extracted records \<open>brut\<close>, with the set \<open>vistos\<close> of keys seen so
  far; the result is \<open>lista\<close> in the order of its \<open>append\<close>s.
\<close>

fun detect_loop :: "string set \<Rightarrow> raw_tramo list \<Rightarrow> tramo_norm list" where
  "detect_loop vistos [] = []"
| "detect_loop vistos (r # rs) =
     (if name_of r = [] then detect_loop vistos rs
      else if clave_of r \<in> vistos then detect_loop vistos rs
      else normalizar r # detect_loop (insert (clave_of r) vistos) rs)"

definition detect_all :: "raw_tramo list \<Rightarrow> tramo_norm list" where
  "detect_all brut = detect_loop {} brut"

section \<open>models.py: sheet names\<close>

text \<open>The class \<open>[:\\/*?\[\]]\<close> (the character of code 92 is the backslash).\<close>

definition sheet_forbidden :: "char \<Rightarrow> bool" where
  "sheet_forbidden c = (c \<in> set '':/*?[]'' \<or> c = CHR 0x5C)"

text \<open>\<open>s.replace(c, new)\<close> for a one-character \<open>c\<close>.\<close>

definition replace_char :: "char \<Rightarrow> string \<Rightarrow> string \<Rightarrow> string" where
  "replace_char c new s = concat (map (\<lambda>x. if x = c then new else [x]) s)"

text \<open>
  \<open>hash\<close> of a \<open>str\<close> is salted per process; the function is a parameter \<open>h\<close>.
\<close>

definition nombre_hoja_seguro :: "(string \<Rightarrow> int) \<Rightarrow> string \<Rightarrow> string" where
  "nombre_hoja_seguro h nombre_original =
     (let base = py_strip nombre_original;
          base = replace_char (CHR '':'') '' -'' base;
          base = replace_char (CHR ''/'') '' /'' base;
          base = map (\<lambda>c. if sheet_forbidden c then CHR '' '' else c) base;
          base = take 27 base;
          suf = CHR ''_'' # fmt_0wd 3 (\<bar>h nombre_original\<bar> mod 1000)
      in take 31 (base @ suf))"

section \<open>storage.py: the workbook\<close>

text \<open>
  The workbook of openpyxl, as far as the code depends on it: an ordered list of sheets,
  each a title and the rows appended so far. openpyxl keeps the titles of a workbook
  distinct, so a sheet object is referred to by its title. \<open>ws.append\<close> either adds the
  whole row or raises and adds nothing.
\<close>

datatype cell = CStr string | CInt int | CNum rat

record sheet =
  title :: string
  rows :: "cell list list"

type_synonym workbook = "sheet list"

datatype exn = ValueError | KeyError | IllegalCharacterError | TypeError | OSError

text \<open>
  What the code reads from outside: the process's string hash, the clock
  (\<open>datetime.now()\<close>), and the title openpyxl gives a new sheet whose requested title
  equals an existing one up to case (\<open>avoid_duplicate_name\<close>).
\<close>

record env =
  py_hash :: "string \<Rightarrow> int"
  now_year :: nat
  now_month :: nat
  now_day :: nat
  now_hour :: nat
  now_minute :: nat
  now_second :: nat
  avoid_duplicate_name :: "string list \<Rightarrow> string \<Rightarrow> string"

text \<open>\<open>ahora.strftime("%d/%m/%Y")\<close> and \<open>ahora.strftime("%H:%M:%S")\<close>.\<close>

definition fecha :: "env \<Rightarrow> string" where
  "fecha e = fmt_0wd 2 (int (now_day e)) @ ''/'' @ fmt_0wd 2 (int (now_month e)) @ ''/''
             @ fmt_0wd 4 (int (now_year e))"

definition hora :: "env \<Rightarrow> string" where
  "hora e = fmt_0wd 2 (int (now_hour e)) @ '':'' @ fmt_0wd 2 (int (now_minute e)) @ '':''
            @ fmt_0wd 2 (int (now_second e))"

definition inus_name :: string where
  "inus_name = ''Tr'' @ [CHR 0xE1] @ ''fico inusual''"

definition desc_name :: string where
  "desc_name = ''Desconocidos''"

definition sheetnames :: "workbook \<Rightarrow> string list" where
  "sheetnames w = map title w"

text \<open>\<open>wb[name]\<close>: the first sheet of that title, \<open>KeyError\<close> (\<open>None\<close>) without one.\<close>

definition getitem :: "workbook \<Rightarrow> string \<Rightarrow> sheet option" where
  "getitem w n = find (\<lambda>s. title s = n) w"

fun getitems :: "workbook \<Rightarrow> string list \<Rightarrow> sheet list option" where
  "getitems w [] = Some []"
| "getitems w (n # ns) =
     (case getitem w n of
        None \<Rightarrow> None
      | Some s \<Rightarrow> (case getitems w ns of None \<Rightarrow> None | Some ss \<Rightarrow> Some (s # ss)))"

definition on_sheet :: "string \<Rightarrow> (sheet \<Rightarrow> sheet) \<Rightarrow> workbook \<Rightarrow> workbook" where
  "on_sheet h f w = map (\<lambda>s. if title s = h then f s else s) w"

text \<open>The titles openpyxl refuses: \<open>[\\*?:/\[\]]\<close>, the same class as above.\<close>

definition create_sheet :: "env \<Rightarrow> string \<Rightarrow> nat option \<Rightarrow> workbook \<Rightarrow> exn + (string \<times> workbook)" where
  "create_sheet e ttl idx w =
     (let v = (if ttl = [] then ''Sheet'' else ttl)
      in if list_ex sheet_forbidden v then Inl ValueError
         else
           (let names = sheetnames w;
                v' = (if list_ex (\<lambda>n. py_lower n = py_lower v) names
                      then avoid_duplicate_name e names v else v);
                ws = \<lparr> title = v', rows = [] \<rparr>
            in Inr (v', case idx of None \<Rightarrow> w @ [ws] | Some i \<Rightarrow> take i w @ [ws] @ drop i w)))"

definition encabezados :: "cell list" where
  "encabezados =
     [CStr ''Fecha'', CStr ''Hora'', CStr ''Tramo'', CStr ''Tiempo (MM:SS)'', CStr ''Tiempo (s)'',
      CStr ''Velocidad (km/h)'', CStr ''Distancia (km)'']"

text \<open>The test of the source (\<open>max_row == 1\<close> and an empty first row) is the test for no rows.\<close>

definition poner_encabezados :: "string \<Rightarrow> workbook \<Rightarrow> workbook" where
  "poner_encabezados h w =
     on_sheet h (\<lambda>s. if rows s = [] then s\<lparr>rows := [encabezados]\<rparr> else s) w"

text \<open>The characters openpyxl refuses in a cell: \<open>[\000-\010]|[\013-\014]|[\016-\037]\<close>.\<close>

definition illegal_char :: "char \<Rightarrow> bool" where
  "illegal_char c = (let n = (of_char c :: nat) in n \<le> 8 \<or> n = 11 \<or> n = 12 \<or> (14 \<le> n \<and> n \<le> 31))"

definition cell_illegal :: "cell \<Rightarrow> bool" where
  "cell_illegal c = (case c of CStr s \<Rightarrow> list_ex illegal_char s | CInt _ \<Rightarrow> False | CNum _ \<Rightarrow> False)"

definition ws_append :: "string \<Rightarrow> cell list \<Rightarrow> workbook \<Rightarrow> exn + workbook" where
  "ws_append h fila w =
     (if list_ex cell_illegal fila then Inl IllegalCharacterError
      else Inr (on_sheet h (\<lambda>s. s\<lparr>rows := rows s @ [fila]\<rparr>) w))"

definition index_of :: "'a \<Rightarrow> 'a list \<Rightarrow> nat" where
  "index_of x xs = length (takeWhile (\<lambda>y. y \<noteq> x) xs)"

definition watchlist_names :: "string list \<Rightarrow> string list" where
  "watchlist_names names = filter (\<lambda>s. s \<noteq> inus_name \<and> s \<noteq> desc_name) names"

definition ordenar_hojas_watchlist :: "env \<Rightarrow> workbook \<Rightarrow> exn option \<times> workbook" where
  "ordenar_hojas_watchlist e w =
     (case (if inus_name \<in> set (sheetnames w) then Inr w
            else (case create_sheet e inus_name (Some 0) w of
                    Inl x \<Rightarrow> Inl x
                  | Inr (h, w') \<Rightarrow> Inr (poner_encabezados h w'))) of
        Inl x \<Rightarrow> (Some x, w)
      | Inr w1 \<Rightarrow>
          (let sheets = sheetnames w1;
               watchlist_sheets = sort_key py_lower (watchlist_names sheets);
               new_order = [inus_name] @ watchlist_sheets
                           @ (if desc_name \<in> set sheets then [desc_name] else [])
           in case getitems w1 new_order of
                None \<Rightarrow> (Some KeyError, w1)
              | Some ss \<Rightarrow> (None, ss)))"

definition insertar_hoja_watchlist_en_posicion :: "env \<Rightarrow> string \<Rightarrow> workbook \<Rightarrow> exn option \<times> workbook" where
  "insertar_hoja_watchlist_en_posicion e ttl w =
     (if ttl \<in> set (sheetnames w) then (None, w)
      else
        (let existing = sort_key py_lower (watchlist_names (sheetnames w) @ [ttl]);
             target_index = 1 + index_of ttl existing
         in case create_sheet e ttl None w of
              Inl x \<Rightarrow> (Some x, w)
            | Inr (h, w1) \<Rightarrow>
                (let w2 = poner_encabezados h w1;
                     ws = last w2;
                     current = butlast w2;
                     current = take target_index current @ [ws] @ drop target_index current;
                     current = (case getitem w2 desc_name of
                                  None \<Rightarrow> current
                                | Some ws_desc \<Rightarrow>
                                    filter (\<lambda>s. title s \<noteq> desc_name) current @ [ws_desc])
                 in case getitem w2 inus_name of
                      None \<Rightarrow> (Some KeyError, w2)
                    | Some ws_inus \<Rightarrow>
                        (None, ws_inus # filter (\<lambda>s. title s \<noteq> inus_name) current))))"

section \<open>storage.py: the module's state and the files\<close>

text \<open>
  A line of the WAL file, by what \<open>line.strip()\<close> and \<open>json.loads\<close> make of it: blank,
  not JSON, or the JSON of a record.
\<close>

datatype wal_line = Linea_vacia | Linea_invalida | Linea_json tramo_norm

text \<open>
  The globals \<open>wb\<close> and \<open>archivo_excel\<close>, and the files beside the workbook: the WAL
  (\<open>None\<close> when the file does not exist), the commit marker, and the workbook file as last
  saved. \<open>save_fails\<close> tells, for each coming attempt to save, whether it fails (a locked
  file); \<open>sleeps\<close> counts the calls of \<open>time.sleep\<close>.
\<close>

record estado =
  wb :: "workbook option"
  archivo_excel :: "string option"
  wal_file :: "wal_line list option"
  mark_file :: "string option"
  excel_file :: "workbook option"
  save_fails :: "bool list"
  sleeps :: nat

definition wal_write_transaction :: "tramo_norm list \<Rightarrow> estado \<Rightarrow> estado" where
  "wal_write_transaction tramos_norm st = st\<lparr>wal_file := Some (map Linea_json tramos_norm)\<rparr>"

definition wal_mark_committed :: "estado \<Rightarrow> estado" where
  "wal_mark_committed st = st\<lparr>mark_file := Some ''ok''\<rparr>"

definition wal_clear :: "estado \<Rightarrow> estado" where
  "wal_clear st = st\<lparr>wal_file := None, mark_file := None\<rparr>"

definition atomic_save_workbook :: "workbook \<Rightarrow> string \<Rightarrow> estado \<Rightarrow> (exn + string) \<times> estado" where
  "atomic_save_workbook workbook ruta st =
     (if ruta = [] then (Inl ValueError, st)
      else case save_fails st of
             [] \<Rightarrow> (Inr ruta, st\<lparr>excel_file := Some workbook\<rparr>)
           | falla # fs \<Rightarrow>
               if falla then (Inl OSError, st\<lparr>save_fails := fs\<rparr>)
               else (Inr ruta, st\<lparr>excel_file := Some workbook, save_fails := fs\<rparr>))"

text \<open>
  The loop \<open>for i in range(intentos)\<close>, by the number of attempts left; \<open>last_exc\<close> is
  the exception of the attempt before.
\<close>

fun safe_save_loop :: "workbook \<Rightarrow> string \<Rightarrow> nat \<Rightarrow> exn option \<Rightarrow> estado \<Rightarrow> (exn + string) \<times> estado" where
  "safe_save_loop workbook ruta 0 last_exc st =
     (case last_exc of Some x \<Rightarrow> (Inl x, st) | None \<Rightarrow> (Inr ruta, st))"
| "safe_save_loop workbook ruta (Suc k) last_exc st =
     (case atomic_save_workbook workbook ruta st of
        (Inr r, st') \<Rightarrow> (Inr r, st')
      | (Inl x, st') \<Rightarrow>
          if 0 < k then safe_save_loop workbook ruta k (Some x) (st'\<lparr>sleeps := sleeps st' + 1\<rparr>)
          else (Inl x, st'))"

definition safe_save_workbook :: "workbook \<Rightarrow> string \<Rightarrow> nat \<Rightarrow> estado \<Rightarrow> (exn + string) \<times> estado" where
  "safe_save_workbook workbook ruta intentos st = safe_save_loop workbook ruta intentos None st"

section \<open>storage.py: \<open>guardar_tramos\<close>\<close>

definition fila_de :: "env \<Rightarrow> tramo_norm \<Rightarrow> cell list" where
  "fila_de e t =
     [CStr (fecha e), CStr (hora e), CStr (py_strip (nombre t)), CStr (tiempo_mmss t),
      (case tiempo_seg t of Some n \<Rightarrow> CInt n | None \<Rightarrow> CStr []),
      (case vel_kmh t of Some v \<Rightarrow> CNum v | None \<Rightarrow> CStr []),
      (case dist_km t of Some d \<Rightarrow> CNum d | None \<Rightarrow> CStr [])]"

text \<open>
  One turn of the loop over \<open>tramos\<close>, on the workbook and the counters
  \<open>(guardados, u, i)\<close>. An exception inside the \<open>try\<close> ends the turn (\<open>continue\<close>) and
  keeps what the turn changed before it.
\<close>

definition guardar_uno :: "env \<Rightarrow> string \<Rightarrow> tramo_norm \<Rightarrow> workbook \<times> nat \<times> nat \<times> nat \<Rightarrow> workbook \<times> nat \<times> nat \<times> nat" where
  "guardar_uno e hoja_inus t acc =
     (case acc of (w, g, u, i) \<Rightarrow>
        (case es_usual t of
           Some True \<Rightarrow>
             (let hoja = nombre_hoja_seguro (py_hash e) (py_strip (nombre t))
              in case (if hoja \<in> set (sheetnames w) then (None, w)
                       else insertar_hoja_watchlist_en_posicion e hoja w) of
                   (Some x, w1) \<Rightarrow> (w1, g, u, i)
                 | (None, w1) \<Rightarrow>
                     (case getitem w1 hoja of
                        None \<Rightarrow> (w1, g, u, i)
                      | Some ws \<Rightarrow>
                          (case ws_append hoja (fila_de e t) (poner_encabezados hoja w1) of
                             Inl x \<Rightarrow> (poner_encabezados hoja w1, g, u, i)
                           | Inr w2 \<Rightarrow> (w2, g + 1, u + 1, i))))
         | Some False \<Rightarrow>
             (case ws_append hoja_inus (fila_de e t) w of
                Inl x \<Rightarrow> (w, g, u, i)
              | Inr w2 \<Rightarrow> (w2, g + 1, u, i + 1))
         | None \<Rightarrow>
             (case (if desc_name \<in> set (sheetnames w) then Inr (desc_name, w)
                    else (case create_sheet e desc_name None w of
                            Inl x \<Rightarrow> Inl (x, w)
                          | Inr (h, w') \<Rightarrow> Inr (h, poner_encabezados h w'))) of
                Inl (x, w1) \<Rightarrow> (w1, g, u, i)
              | Inr (hoja_desc, w1) \<Rightarrow>
                  (case ws_append hoja_desc (fila_de e t) w1 of
                     Inl x \<Rightarrow> (w1, g, u, i)
                   | Inr w2 \<Rightarrow> (w2, g + 1, u, i)))))"

fun guardar_loop :: "env \<Rightarrow> string \<Rightarrow> tramo_norm list \<Rightarrow> workbook \<times> nat \<times> nat \<times> nat \<Rightarrow> workbook \<times> nat \<times> nat \<times> nat" where
  "guardar_loop e hoja_inus [] acc = acc"
| "guardar_loop e hoja_inus (t # ts) acc = guardar_loop e hoja_inus ts (guardar_uno e hoja_inus t acc)"

text \<open>
  The result is the triple \<open>(guardados, u, i)\<close> and the state after the call; \<open>Inl\<close> is an
  exception that leaves the function.
\<close>

definition guardar_tramos :: "env \<Rightarrow> tramo_norm list \<Rightarrow> estado \<Rightarrow> (exn + nat \<times> nat \<times> nat) \<times> estado" where
  "guardar_tramos e tramos st =
     (case wb st of
        None \<Rightarrow> (Inr (0, 0, 0), st)
      | Some w \<Rightarrow>
          (case archivo_excel st of
             None \<Rightarrow> (Inr (0, 0, 0), st)
           | Some ruta \<Rightarrow>
               if ruta = [] then (Inr (0, 0, 0), st)
               else
                 (case (if inus_name \<in> set (sheetnames w) then Inr (inus_name, w)
                        else create_sheet e inus_name (Some 0) w) of
                    Inl x \<Rightarrow> (Inl x, st)
                  | Inr (hoja_inus, w1) \<Rightarrow>
                      (let w2 = poner_encabezados hoja_inus w1;
                           w3 = (if desc_name \<in> set (sheetnames w2)
                                 then poner_encabezados desc_name w2 else w2)
                       in case guardar_loop e hoja_inus tramos (w3, 0, 0, 0) of
                            (w4, g, u, i) \<Rightarrow>
                              (case ordenar_hojas_watchlist e w4 of
                                 (Some x, w5) \<Rightarrow> (Inr (g, u, i), st\<lparr>wb := Some w5\<rparr>)
                               | (None, w5) \<Rightarrow>
                                   (Inr (g, u, i),
                                    snd (safe_save_workbook w5 ruta 5 (st\<lparr>wb := Some w5\<rparr>))))))))"

section \<open>storage.py: \<open>recover_from_wal\<close>\<close>

text \<open>
  The function is declared \<open>def guardar_tramos(tramos)\<close>. A call with the batch as its
  positional argument and keyword arguments \<open>kwargs\<close> raises \<open>TypeError\<close> before the body
  runs when a keyword is not a parameter of the function (or names the parameter the
  positional argument already fills).
\<close>

definition call_guardar_tramos :: "env \<Rightarrow> string list \<Rightarrow> tramo_norm list \<Rightarrow> estado \<Rightarrow> (exn + nat \<times> nat \<times> nat) \<times> estado" where
  "call_guardar_tramos e kwargs tramos st =
     (if kwargs \<noteq> [] then (Inl TypeError, st) else guardar_tramos e tramos st)"

definition leer_wal :: "wal_line list \<Rightarrow> tramo_norm list" where
  "leer_wal lineas =
     concat (map (\<lambda>l. case l of Linea_vacia \<Rightarrow> [] | Linea_invalida \<Rightarrow> [] | Linea_json t \<Rightarrow> [t]) lineas)"

text \<open>The result is the exception that leaves the function, if any, and the state after.\<close>

definition recover_from_wal :: "env \<Rightarrow> estado \<Rightarrow> exn option \<times> estado" where
  "recover_from_wal e st =
     (case archivo_excel st of
        None \<Rightarrow> (None, st)
      | Some ruta \<Rightarrow>
          if ruta = [] then (None, st)
          else
            (case wal_file st of
               None \<Rightarrow> (None, st)
             | Some lineas \<Rightarrow>
                 if mark_file st \<noteq> None then (None, wal_clear st)
                 else
                   (let tramos = leer_wal lineas
                    in if tramos = [] then (None, wal_clear st)
                       else
                         (case call_guardar_tramos e [''_skip_wal''] tramos st of
                            (Inl x, st') \<Rightarrow> (Some x, wal_clear st')
                          | (Inr r, st') \<Rightarrow> (None, wal_clear st')))))"

section \<open>Notions the claims are stated with\<close>




text \<open>The part of a sheet name that \<open>nombre_hoja_seguro\<close> takes from the segment name.\<close>

definition base_de :: "string \<Rightarrow> string" where
  "base_de n = take 27 (map (\<lambda>c. if sheet_forbidden c then CHR '' '' else c)
      (replace_char (CHR ''/'') '' /'' (replace_char (CHR '':'') '' -'' (py_strip n))))"



section \<open>Sample inputs\<close>

text \<open>
  A process whose string hash is constantly 0, a clock, and a workbook as the start-up
  code leaves it: the sheet of unusual traffic alone, with its header row, saved.
\<close>

definition env0 :: env where
  "env0 = \<lparr> py_hash = (\<lambda>s. 0), now_year = 2025, now_month = 2, now_day = 1,
            now_hour = 10, now_minute = 0, now_second = 0,
            avoid_duplicate_name = (\<lambda>names v. v @ ''1'') \<rparr>"

definition wb0 :: workbook where
  "wb0 = [\<lparr> title = inus_name, rows = [encabezados] \<rparr>]"

definition st0 :: estado where
  "st0 = \<lparr> wb = Some wb0, archivo_excel = Some ''Captura_Waze.xlsx'', wal_file = None,
           mark_file = None, excel_file = Some wb0, save_fails = [], sleeps = 0 \<rparr>"

definition tramo_inusual :: tramo_norm where
  "tramo_inusual =
     \<lparr> nombre = ''Av. Uno'', dist_km = Some 2, tiempo_min = Some 5, tiempo_seg = Some 300,
       tiempo_mmss = ''05:00'', vel_kmh = None, jam = None, es_usual = Some False,
       current_raw = ''5 min'', historic_raw = [], dist_raw = ''2 km'',
       raw = ''Av. Uno | 5 min | 2 km | tiempo=05:00'' \<rparr>"

text \<open>Raw records: the one of the scenario, and variations of it.\<close>

definition raw_ave_x :: raw_tramo where
  "raw_ave_x = \<lparr> r_name = Some ''Ave X'', r_current = Some ''12 min'', r_historic = Some [],
                  r_dist = Some ''4.5 km'', r_jam = None, r_section_flag = Some ''watch'' \<rparr>"

definition raw_vel :: raw_tramo where
  "raw_vel = \<lparr> r_name = Some ''Ave Y'', r_current = Some ''30 km/h'', r_historic = Some [],
                r_dist = Some ''4.5 km'', r_jam = Some 2, r_section_flag = Some ''unusual'' \<rparr>"

definition raw_solo_dist :: raw_tramo where
  "raw_solo_dist = \<lparr> r_name = Some ''Ave Z'', r_current = Some [], r_historic = Some [],
                      r_dist = Some ''4.5 km'', r_jam = None, r_section_flag = Some [] \<rparr>"

definition raw_mayus :: raw_tramo where
  "raw_mayus = \<lparr> r_name = Some ''Ave X'', r_current = Some ''12 min'', r_historic = Some [],
                  r_dist = Some ''4.5 km'', r_jam = None, r_section_flag = Some ''UNUSUAL'' \<rparr>"




section \<open>What saving leaves untouched\<close>

lemma atomic_save_frame:
  "wal_file (snd (atomic_save_workbook w ruta st)) = wal_file st"
  "mark_file (snd (atomic_save_workbook w ruta st)) = mark_file st"
  "wb (snd (atomic_save_workbook w ruta st)) = wb st"
  "archivo_excel (snd (atomic_save_workbook w ruta st)) = archivo_excel st"
  by (simp_all add: atomic_save_workbook_def split: list.splits)

lemma safe_save_loop_frame:
  "wal_file (snd (safe_save_loop w ruta k le st)) = wal_file st \<and>
   mark_file (snd (safe_save_loop w ruta k le st)) = mark_file st \<and>
   wb (snd (safe_save_loop w ruta k le st)) = wb st \<and>
   archivo_excel (snd (safe_save_loop w ruta k le st)) = archivo_excel st"
proof (induction k arbitrary: le st)
  case 0
  then show ?case by (simp split: option.splits)
next
  case (Suc k)
  obtain r st' where a: "atomic_save_workbook w ruta st = (r, st')"
    by (cases "atomic_save_workbook w ruta st")
  have fr: "wal_file st' = wal_file st" "mark_file st' = mark_file st" "wb st' = wb st"
    "archivo_excel st' = archivo_excel st"
    using atomic_save_frame [of w ruta st] a by simp_all
  show ?case
  proof (cases r)
    case (Inl x)
    then show ?thesis using a fr Suc [of "Some x" "st'\<lparr>sleeps := sleeps st' + 1\<rparr>"] by simp
  next
    case (Inr p)
    then show ?thesis using a fr by simp
  qed
qed

lemma create_sheet_inus: "\<exists>h w'. create_sheet e inus_name idx w = Inr (h, w')"
  by (simp add: create_sheet_def inus_name_def sheet_forbidden_def Let_def)

text \<open>The ways \<open>guardar_tramos\<close> ends: no exception leaves it, whatever the save does.\<close>

lemma guardar_tramos_cases:
  "guardar_tramos e ts st = (Inr (0, 0, 0), st) \<or>
   (\<exists>g u i w5. guardar_tramos e ts st = (Inr (g, u, i), st\<lparr>wb := Some w5\<rparr>)) \<or>
   (\<exists>g u i w5 ruta. guardar_tramos e ts st =
        (Inr (g, u, i), snd (safe_save_workbook w5 ruta 5 (st\<lparr>wb := Some w5\<rparr>))))"
proof (cases "wb st")
  case None
  then show ?thesis by (simp add: guardar_tramos_def)
next
  case (Some w)
  show ?thesis
  proof (cases "archivo_excel st")
    case None
    then show ?thesis using Some by (simp add: guardar_tramos_def)
  next
    case (Some ruta)
    note r = this
    show ?thesis
    proof (cases "ruta = []")
      case True
      then show ?thesis using r \<open>wb st = Some w\<close> by (simp add: guardar_tramos_def)
    next
      case False
      obtain h w1 where c: "(if inus_name \<in> set (sheetnames w) then Inr (inus_name, w)
                        else create_sheet e inus_name (Some 0) w) = Inr (h, w1)"
        using create_sheet_inus [of e "Some 0" w] by (cases "inus_name \<in> set (sheetnames w)") auto
      define w3 where "w3 = (let w2 = poner_encabezados h w1 in
          if desc_name \<in> set (sheetnames w2) then poner_encabezados desc_name w2 else w2)"
      obtain w4 g u i where l: "guardar_loop e h ts (w3, 0, 0, 0) = (w4, g, u, i)"
        by (cases "guardar_loop e h ts (w3, 0, 0, 0)") auto
      obtain x w5 where o: "ordenar_hojas_watchlist e w4 = (x, w5)"
        by (cases "ordenar_hojas_watchlist e w4")
      have "guardar_tramos e ts st =
         (case x of Some y \<Rightarrow> (Inr (g, u, i), st\<lparr>wb := Some w5\<rparr>)
          | None \<Rightarrow> (Inr (g, u, i), snd (safe_save_workbook w5 ruta 5 (st\<lparr>wb := Some w5\<rparr>))))"
        using \<open>wb st = Some w\<close> r False c l o
        by (simp add: guardar_tramos_def w3_def Let_def split: option.splits)
      then show ?thesis by (cases x) auto
    qed
  qed
qed

lemma guardar_tramos_sample:
  "fst (guardar_tramos env0 [tramo_inusual] st0) = Inr (1, 0, 1) \<and>
   wb (snd (guardar_tramos env0 [tramo_inusual] st0))
     = Some [\<lparr> title = inus_name, rows = [encabezados, fila_de env0 tramo_inusual] \<rparr>] \<and>
   excel_file (snd (guardar_tramos env0 [tramo_inusual] st0))
     = Some [\<lparr> title = inus_name, rows = [encabezados, fila_de env0 tramo_inusual] \<rparr>]"
  by code_simp

section \<open>Recovery\<close>

text \<open>
  Claim C1, as the code has it. With a WAL file that holds at least one record and no
  commit marker, \<open>recover_from_wal\<close> calls \<open>guardar_tramos(tramos, _skip_wal=True)\<close>;
  \<open>guardar_tramos\<close> has no such parameter, so the call raises \<open>TypeError\<close> before any
  record is applied, the \<open>finally\<close> clause deletes the WAL, and the exception leaves
  \<open>recover_from_wal\<close>: the workbook in memory and the workbook file are as before, and the
  logged batch is gone. An uninterrupted \<open>guardar_tramos\<close> of the same batch changes the
  workbook.
\<close>

theorem recover_drops_logged_batch:
  assumes "archivo_excel st = Some ruta" and "ruta \<noteq> []" and "wal_file st = Some lineas"
    and "mark_file st = None" and "leer_wal lineas \<noteq> []"
  shows "recover_from_wal e st = (Some TypeError, st\<lparr>wal_file := None\<rparr>)"
  using assms
  by (simp add: recover_from_wal_def call_guardar_tramos_def wal_clear_def)

theorem recover_drops_logged_batch_witness:
  "recover_from_wal env0 (wal_write_transaction [tramo_inusual] st0) = (Some TypeError, st0) \<and>
   wb (snd (guardar_tramos env0 [tramo_inusual] st0)) \<noteq> wb st0"
proof -
  let ?st = "wal_write_transaction [tramo_inusual] st0"
  have "recover_from_wal env0 ?st = (Some TypeError, ?st\<lparr>wal_file := None\<rparr>)"
    by (rule recover_drops_logged_batch [where ruta = "''Captura_Waze.xlsx''"
          and lineas = "[Linea_json tramo_inusual]"])
       (simp_all add: wal_write_transaction_def st0_def leer_wal_def)
  then show ?thesis
    using guardar_tramos_sample by (simp add: wal_write_transaction_def st0_def wb0_def)
qed

text \<open>
  Claim C9. With the WAL file and the commit marker both present, \<open>recover_from_wal\<close>
  returns normally and the state after it differs from the state before only in that both
  files are gone: nothing is applied to the workbook. Without a WAL file it changes nothing.
\<close>

theorem recover_committed_or_absent:
  "(archivo_excel st = Some ruta \<and> ruta \<noteq> [] \<and> wal_file st = Some lineas \<and> mark_file st = Some m
      \<longrightarrow> recover_from_wal e st = (None, st\<lparr>wal_file := None, mark_file := None\<rparr>)) \<and>
   (wal_file st = None \<longrightarrow> recover_from_wal e st = (None, st))"
  by (simp add: recover_from_wal_def wal_clear_def split: option.splits)

theorem recover_committed_or_absent_witness:
  "recover_from_wal env0 (wal_mark_committed (wal_write_transaction [tramo_inusual] st0))
     = (None, st0) \<and>
   recover_from_wal env0 st0 = (None, st0)"
proof -
  let ?st = "wal_mark_committed (wal_write_transaction [tramo_inusual] st0)"
  have a: "archivo_excel ?st = Some ''Captura_Waze.xlsx'' \<and> ''Captura_Waze.xlsx'' \<noteq> [] \<and>
      wal_file ?st = Some [Linea_json tramo_inusual] \<and> mark_file ?st = Some ''ok''"
    by (simp add: wal_mark_committed_def wal_write_transaction_def st0_def)
  have b: "wal_file st0 = None" by (simp add: st0_def)
  have "recover_from_wal env0 ?st = (None, ?st\<lparr>wal_file := None, mark_file := None\<rparr>)"
    using recover_committed_or_absent [of ?st "''Captura_Waze.xlsx''" "[Linea_json tramo_inusual]"
        "''ok''" env0] a by blast
  moreover have "recover_from_wal env0 st0 = (None, st0)"
    using recover_committed_or_absent [of st0 "''Captura_Waze.xlsx''" "[]" "''ok''" env0] b by blast
  ultimately show ?thesis
    by (simp add: wal_mark_committed_def wal_write_transaction_def st0_def)
qed

section \<open>The write-ahead log and \<open>guardar_tramos\<close>\<close>

text \<open>
  Claim C2, as the code has it. \<open>guardar_tramos\<close> applies the batch and saves without
  writing the WAL or the commit marker: both files are after the call what they were
  before it. The functions that write them are called from nowhere.
\<close>

theorem guardar_tramos_never_logs:
  "wal_file (snd (guardar_tramos e ts st)) = wal_file st \<and>
   mark_file (snd (guardar_tramos e ts st)) = mark_file st"
  using guardar_tramos_cases [of e ts st]
  by (auto simp: safe_save_workbook_def safe_save_loop_frame)

theorem guardar_tramos_never_logs_witness:
  "fst (guardar_tramos env0 [tramo_inusual] st0) = Inr (1, 0, 1) \<and>
   wal_file (snd (guardar_tramos env0 [tramo_inusual] st0)) = None \<and>
   mark_file (snd (guardar_tramos env0 [tramo_inusual] st0)) = None"
  using guardar_tramos_never_logs [of env0 "[tramo_inusual]" st0] guardar_tramos_sample
  by (simp add: st0_def)

section \<open>The records \<open>detect_all\<close> builds\<close>

lemma normalizar_fields:
  "nombre (normalizar r) = name_of r"
  "dist_raw (normalizar r) = dist_of r"
  "current_raw (normalizar r) = curr_of r"
  "historic_raw (normalizar r) = hist_of r"
  "es_usual (normalizar r) = es_usual_of r"
  "jam (normalizar r) = r_jam r"
  by (simp_all add: normalizar_def Let_def split: prod.splits)


lemma detect_loop_subset:
  "t \<in> set (detect_loop V rs) \<Longrightarrow> \<exists>r\<in>set rs. name_of r \<noteq> [] \<and> t = normalizar r"
  by (induction rs arbitrary: V) (auto split: if_splits)











text \<open>
  Claim C5, as stated, fails: the hint \<open>UNUSUAL\<close> is neither \<open>unusual\<close> nor \<open>watch\<close>, and
  the record is classified unusual, not unknown.
\<close>

theorem classification_other_hint_counterexample:
  "r_section_flag raw_mayus = Some ''UNUSUAL'' \<and>
   map es_usual (detect_all [raw_mayus]) = [Some False]"
  by code_simp

text \<open>
  Claim C5, amended. The category is a function of the hint alone, read after white space
  around it is removed and it is put in lower case: \<open>unusual\<close> gives unusual
  (\<open>es_usual = False\<close>), \<open>watch\<close> gives usual (\<open>True\<close>), anything else, the empty and the
  missing hint among it, gives unknown (\<open>None\<close>); two raw records with the same hint get the
  same category whatever their other fields are, and every record of the result is built
  from a raw record of the batch.
\<close>

theorem classification_by_hint:
  "(r_section_flag r = Some ''unusual'' \<longrightarrow> es_usual (normalizar r) = Some False) \<and>
   (r_section_flag r = Some ''watch'' \<longrightarrow> es_usual (normalizar r) = Some True) \<and>
   (r_section_flag r = Some [] \<or> r_section_flag r = None \<longrightarrow> es_usual (normalizar r) = None) \<and>
   (py_lower (py_strip (or_empty (r_section_flag r))) = ''unusual''
      \<longrightarrow> es_usual (normalizar r) = Some False) \<and>
   (py_lower (py_strip (or_empty (r_section_flag r))) = ''watch''
      \<longrightarrow> es_usual (normalizar r) = Some True) \<and>
   (py_lower (py_strip (or_empty (r_section_flag r))) \<noteq> ''unusual'' \<and>
    py_lower (py_strip (or_empty (r_section_flag r))) \<noteq> ''watch''
      \<longrightarrow> es_usual (normalizar r) = None) \<and>
   (r_section_flag r = r_section_flag r' \<longrightarrow> es_usual (normalizar r) = es_usual (normalizar r')) \<and>
   (\<forall>t\<in>set (detect_all brut). \<exists>q\<in>set brut. t = normalizar q)"
proof -
  have a: "py_lower (py_strip ''unusual'') = ''unusual''" by code_simp
  have b: "py_lower (py_strip ''watch'') = ''watch''" by code_simp
  have c: "py_lower (py_strip []) = []" by code_simp
  have d: "\<forall>t\<in>set (detect_all brut). \<exists>q\<in>set brut. t = normalizar q"
    using detect_loop_subset [of _ "{}" brut] by (auto simp: detect_all_def)
  show ?thesis using d
    by (simp add: normalizar_fields es_usual_of_def or_empty_def a b c Let_def)
qed

theorem classification_by_hint_witness:
  "es_usual (normalizar raw_ave_x) = Some True \<and>
   es_usual (normalizar raw_vel) = Some False \<and>
   es_usual (normalizar raw_solo_dist) = None"
proof -
  have "r_section_flag raw_ave_x = Some ''watch''" "r_section_flag raw_vel = Some ''unusual''"
    "r_section_flag raw_solo_dist = Some []"
    by (simp_all add: raw_ave_x_def raw_vel_def raw_solo_dist_def)
  then show ?thesis
    using classification_by_hint [of raw_ave_x raw_ave_x "[]"]
      classification_by_hint [of raw_vel raw_vel "[]"]
      classification_by_hint [of raw_solo_dist raw_solo_dist "[]"]
    by simp
qed




section \<open>Sheet names\<close>

lemma digit_char: "(n :: nat) < 10 \<Longrightarrow> py_isdecimal (char_of (48 + n))"
  by (simp add: py_isdecimal_def Let_def)

lemma dec_digits: "list_all py_isdecimal (dec n)"
proof (induction n rule: dec.induct)
  case (1 n)
  show ?case
  proof (cases "n < 10")
    case True
    then show ?thesis by (subst dec.simps) (simp add: digit_char)
  next
    case False
    then show ?thesis using 1 by (subst dec.simps) (simp add: digit_char)
  qed
qed

lemma dec_length: "n < 1000 \<Longrightarrow> length (dec n) \<le> 3"
proof -
  assume a: "n < 1000"
  have l1: "length (dec m) = 1" if "m < 10" for m
    using that by (subst dec.simps) simp
  have l2: "length (dec m) \<le> 2" if "m < 100" for m
    using that l1 [of "m div 10"] by (subst dec.simps) auto
  show ?thesis
    using a l2 [of "n div 10"] l1 [of n] by (subst dec.simps) auto
qed

lemma fmt3: "0 \<le> k \<Longrightarrow> k < 1000 \<Longrightarrow> length (fmt_0wd 3 k) = 3 \<and> list_all py_isdecimal (fmt_0wd 3 k)"
proof -
  assume a: "0 \<le> k" "k < 1000"
  have z: "py_isdecimal (CHR ''0'')" by (simp add: py_isdecimal_def)
  have "length (dec (nat k)) \<le> 3" using a dec_length [of "nat k"] by simp
  then show ?thesis
    using a dec_digits [of "nat k"] z by (auto simp: fmt_0wd_def zfill_def list_all_iff)
qed

lemma nombre_hoja_seguro_shape:
  "nombre_hoja_seguro h n = base_de n @ CHR ''_'' # fmt_0wd 3 (\<bar>h n\<bar> mod 1000)"
proof -
  have "length (fmt_0wd 3 (\<bar>h n\<bar> mod 1000)) = 3"
    using fmt3 [of "\<bar>h n\<bar> mod 1000"] by simp
  then show ?thesis
    by (simp add: nombre_hoja_seguro_def base_de_def Let_def)
qed

lemma decimal_not_forbidden: "py_isdecimal c \<Longrightarrow> \<not> sheet_forbidden c"
  by (auto simp: py_isdecimal_def sheet_forbidden_def Let_def)

lemma nombre_hoja_seguro_valid:
  "\<not> list_ex sheet_forbidden (nombre_hoja_seguro h n) \<and> length (nombre_hoja_seguro h n) \<le> 31
   \<and> nombre_hoja_seguro h n \<noteq> []"
proof -
  have d: "list_all py_isdecimal (fmt_0wd 3 (\<bar>h n\<bar> mod 1000))" "length (fmt_0wd 3 (\<bar>h n\<bar> mod 1000)) = 3"
    using fmt3 [of "\<bar>h n\<bar> mod 1000"] by simp_all
  have "\<not> list_ex sheet_forbidden (base_de n)"
    by (auto simp: base_de_def list_ex_iff sheet_forbidden_def dest!: in_set_takeD)
  moreover have "\<not> list_ex sheet_forbidden (fmt_0wd 3 (\<bar>h n\<bar> mod 1000))"
    using d decimal_not_forbidden by (auto simp: list_ex_iff list_all_iff)
  moreover have "\<not> sheet_forbidden (CHR ''_'')" by (simp add: sheet_forbidden_def)
  moreover have "length (base_de n) \<le> 27" by (simp add: base_de_def)
  ultimately show ?thesis using d by (simp add: nombre_hoja_seguro_shape)
qed

lemma base_ave: "base_de ''Ave X'' = ''Ave X''" "base_de ''Z-Ave'' = ''Z-Ave''"
  "base_de ''a-Blvd'' = ''a-Blvd''" "base_de ''Main St'' = ''Main St''"
  by code_simp+

section \<open>The titles of the workbook\<close>

lemma sheetnames_on_sheet:
  "(\<And>s. title (f s) = title s) \<Longrightarrow> sheetnames (on_sheet h f w) = sheetnames w"
  by (simp add: sheetnames_def on_sheet_def)

lemma sheetnames_poner [simp]: "sheetnames (poner_encabezados h w) = sheetnames w"
  by (simp add: poner_encabezados_def sheetnames_on_sheet)


















section \<open>Evaluating the loop on the samples\<close>

lemma lower_Cons: "py_lower (c # s) = py_lower_char c # py_lower s"
  by (simp add: py_lower_def)

lemma lower_heads:
  "py_lower_char (CHR ''T'') = CHR ''t''"
  "py_lower_char (CHR ''D'') = CHR ''d''"
  "py_lower_char (CHR ''A'') = CHR ''a''"
  "py_lower_char (CHR ''Z'') = CHR ''z''"
  "py_lower_char (CHR ''M'') = CHR ''m''"
  "py_lower_char (CHR ''a'') = CHR ''a''"
  by code_simp+

lemma t_ave:
  "es_usual (normalizar raw_ave_x) = Some True"
  "py_strip (nombre (normalizar raw_ave_x)) = ''Ave X''"
  "tiempo_mmss (normalizar raw_ave_x) = ''12:00''"
  "tiempo_seg (normalizar raw_ave_x) = Some 720"
  "vel_kmh (normalizar raw_ave_x) = None"
  "dist_km (normalizar raw_ave_x) = Some (9 / 2)"
  by code_simp+

lemma fila_ave:
  "fila_de e (normalizar raw_ave_x)
     = [CStr (fecha e), CStr (hora e), CStr ''Ave X'', CStr ''12:00'', CInt 720, CStr [], CNum (9 / 2)]"
  by (simp add: fila_de_def t_ave)

lemma hoja_ave:
  "\<exists>d. nombre_hoja_seguro h ''Ave X'' = ''Ave X_'' @ d \<and> length d = 3 \<and> list_all py_isdecimal d"
  using fmt3 [of "\<bar>h ''Ave X''\<bar> mod 1000"]
  by (simp add: nombre_hoja_seguro_shape base_ave)

lemma fmt_digits: "0 \<le> n \<Longrightarrow> list_all py_isdecimal (fmt_0wd w n)"
proof -
  have z: "py_isdecimal (CHR ''0'')" by (simp add: py_isdecimal_def)
  assume "0 \<le> n"
  then show ?thesis using dec_digits [of "nat n"] z
    by (auto simp: fmt_0wd_def zfill_def list_all_iff)
qed

lemma decimal_legal: "py_isdecimal c \<Longrightarrow> \<not> illegal_char c"
  by (auto simp: py_isdecimal_def illegal_char_def Let_def)

lemma fmt_legal: "\<not> list_ex illegal_char (fmt_0wd w (int n))"
  using fmt_digits [of "int n" w] decimal_legal by (auto simp: list_ex_iff list_all_iff)

lemma fecha_hora_legal: "\<not> list_ex illegal_char (fecha e)" "\<not> list_ex illegal_char (hora e)"
proof -
  have "\<not> illegal_char (CHR ''/'')" "\<not> illegal_char (CHR '':'')"
    by (simp_all add: illegal_char_def)
  then show "\<not> list_ex illegal_char (fecha e)" "\<not> list_ex illegal_char (hora e)"
    using fmt_legal by (simp_all add: fecha_def hora_def)
qed

lemma guardar_uno_ave:
  "guardar_uno e inus_name (normalizar raw_ave_x) (wb0, 0, 0, 0)
     = ([\<lparr>title = inus_name, rows = [encabezados]\<rparr>,
         \<lparr>title = nombre_hoja_seguro (py_hash e) ''Ave X'',
          rows = [encabezados, fila_de e (normalizar raw_ave_x)]\<rparr>], 1, 1, 0)"
proof -
  obtain d where d: "nombre_hoja_seguro (py_hash e) ''Ave X'' = ''Ave X_'' @ d" "list_all py_isdecimal d"
    using hoja_ave by blast
  have nf: "\<not> list_ex sheet_forbidden d"
    using d(2) decimal_not_forbidden by (auto simp: list_ex_iff list_all_iff)
  have il: "\<not> list_ex illegal_char ''Ave X''" "\<not> list_ex illegal_char ''12:00''"
    by code_simp+
  have in_de: "inus_name \<noteq> desc_name" by (simp add: inus_name_def desc_name_def)
  show ?thesis
    using nf il fecha_hora_legal [of e]
    by (simp add: guardar_uno_def t_ave d wb0_def sheetnames_def
        insertar_hoja_watchlist_en_posicion_def watchlist_names_def index_of_def
        create_sheet_def Let_def lower_Cons lower_heads sheet_forbidden_def
        poner_encabezados_def on_sheet_def getitem_def ws_append_def fila_ave cell_illegal_def
        inus_name_def desc_name_def)
qed





section \<open>The order of the sheets\<close>




section \<open>The scenario\<close>

text \<open>
  Claim C4, as stated, fails: the name \<open>Ave X\<close> has no character that is illegal in a
  sheet title, and the record lands in a sheet named \<open>Ave X_000\<close> (the hash being 0), not
  \<open>Ave X\<close>.
\<close>

theorem sheet_name_counterexample:
  "\<not> list_ex sheet_forbidden ''Ave X'' \<and>
   map_option sheetnames (wb (snd (guardar_tramos env0 (detect_all [raw_ave_x, raw_ave_x]) st0)))
     = Some [inus_name, ''Ave X_000'']"
  by code_simp

text \<open>
  Claim C4, amended. The batch of the two identical raw records gives one record; saved
  into the workbook that holds the sheet of unusual traffic only, it is counted as one
  usual record and lands in a new sheet named \<open>Ave X_ddd\<close>, \<open>ddd\<close> being the three decimal
  digits of \<open>abs(hash("Ave X")) % 1000\<close>, whose row after the header row has the segment
  \<open>Ave X\<close>, the duration \<open>12:00\<close>, 720 seconds, no speed and the distance 4.5. The sheet
  name of every segment name, with or without illegal characters, is its sanitized base
  of at most 27 characters followed by \<open>_\<close> and three decimal digits of the hash, and holds
  no illegal character.
\<close>

theorem scenario_ave_x:
  "(wb st = Some wb0 \<and> archivo_excel st = Some ruta \<and> ruta \<noteq> [] \<longrightarrow>
      length (detect_all [raw_ave_x, raw_ave_x]) = 1 \<and>
      fst (guardar_tramos e (detect_all [raw_ave_x, raw_ave_x]) st) = Inr (1, 1, 0) \<and>
      wb (snd (guardar_tramos e (detect_all [raw_ave_x, raw_ave_x]) st)) =
        Some [\<lparr>title = inus_name, rows = [encabezados]\<rparr>,
              \<lparr>title = ''Ave X_'' @ fmt_0wd 3 (\<bar>py_hash e ''Ave X''\<bar> mod 1000),
               rows = [encabezados,
                       [CStr (fecha e), CStr (hora e), CStr ''Ave X'', CStr ''12:00'', CInt 720,
                        CStr [], CNum (9 / 2)]]\<rparr>]) \<and>
   nombre_hoja_seguro h n = base_de n @ ''_'' @ fmt_0wd 3 (\<bar>h n\<bar> mod 1000) \<and>
   length (base_de n) \<le> 27 \<and>
   length (fmt_0wd 3 (\<bar>h n\<bar> mod 1000)) = 3 \<and>
   list_all py_isdecimal (fmt_0wd 3 (\<bar>h n\<bar> mod 1000)) \<and>
   \<not> list_ex sheet_forbidden (nombre_hoja_seguro h n)"
proof -
  have d: "detect_all [raw_ave_x, raw_ave_x] = [normalizar raw_ave_x]"
    by code_simp
  have s: "nombre_hoja_seguro (py_hash e) ''Ave X'' = ''Ave X_'' @ fmt_0wd 3 (\<bar>py_hash e ''Ave X''\<bar> mod 1000)"
    by (simp add: nombre_hoja_seguro_shape base_ave)
  have "fst (guardar_tramos e [normalizar raw_ave_x] st) = Inr (1, 1, 0) \<and>
      wb (snd (guardar_tramos e [normalizar raw_ave_x] st)) =
        Some [\<lparr>title = inus_name, rows = [encabezados]\<rparr>,
              \<lparr>title = nombre_hoja_seguro (py_hash e) ''Ave X'',
               rows = [encabezados, fila_de e (normalizar raw_ave_x)]\<rparr>]"
    if a: "wb st = Some wb0" "archivo_excel st = Some ruta" "ruta \<noteq> []"
  proof -
    obtain dd where dd: "nombre_hoja_seguro (py_hash e) ''Ave X'' = ''Ave X_'' @ dd"
      using hoja_ave by blast
    show ?thesis
      using a guardar_uno_ave [of e]
      apply (simp add: guardar_tramos_def wb0_def sheetnames_def poner_encabezados_def on_sheet_def
          Let_def dd inus_name_def desc_name_def)
      apply (simp add: ordenar_hojas_watchlist_def sheetnames_def watchlist_names_def Let_def
          getitem_def inus_name_def desc_name_def safe_save_workbook_def safe_save_loop_frame)
      done
  qed
  moreover have "length (base_de n) \<le> 27" by (simp add: base_de_def)
  ultimately show ?thesis
    using d s fmt3 [of "\<bar>h n\<bar> mod 1000"] nombre_hoja_seguro_valid [of h n]
      nombre_hoja_seguro_shape [of h n]
    by (simp add: fila_ave)
qed

theorem scenario_ave_x_witness:
  "length (detect_all [raw_ave_x, raw_ave_x]) = 1 \<and>
   fst (guardar_tramos env0 (detect_all [raw_ave_x, raw_ave_x]) st0) = Inr (1, 1, 0) \<and>
   wb (snd (guardar_tramos env0 (detect_all [raw_ave_x, raw_ave_x]) st0)) =
        Some [\<lparr>title = inus_name, rows = [encabezados]\<rparr>,
              \<lparr>title = ''Ave X_000'',
               rows = [encabezados,
                       [CStr ''01/02/2025'', CStr ''10:00:00'', CStr ''Ave X'', CStr ''12:00'',
                        CInt 720, CStr [], CNum (9 / 2)]]\<rparr>]"
proof -
  have a: "wb st0 = Some wb0 \<and> archivo_excel st0 = Some ''Captura_Waze.xlsx'' \<and>
      ''Captura_Waze.xlsx'' \<noteq> []"
    by (simp add: st0_def)
  have b: "fmt_0wd 3 (\<bar>py_hash env0 ''Ave X''\<bar> mod 1000) = ''000''" "fecha env0 = ''01/02/2025''"
    "hora env0 = ''10:00:00''"
    by code_simp+
  show ?thesis
    using scenario_ave_x [of st0 "''Captura_Waze.xlsx''" env0 "\<lambda>s. 0" "[]"] a
    by (simp add: b)
qed

section \<open>A save that fails\<close>




section \<open>The counters\<close>



end
